theory Spec2Isabelle
  imports Complex_Main
begin

section \<open>Pose-stream processing of \<^verbatim>\<open>PoseDetection.tsx\<close>\<close>

text \<open>
  The component \<^verbatim>\<open>PoseDetection\<close> runs, for every pose the detector delivers, the body of
  \<^verbatim>\<open>detect\<close>: it smooths the keypoints against the previous frame, draws the result,
  reports a posture score and calls \<^verbatim>\<open>detectRepMovement\<close>.

  Conventions of the embedding.
  \<^item> A JavaScript number is a \<^typ>\<open>real\<close>; rounding of IEEE doubles is not modelled. The one
    non-finite value the code can produce, \<^verbatim>\<open>NaN\<close> from \<^verbatim>\<open>0 / 0\<close>, is a value of its own.
  \<^item> The React references and state (\<^verbatim>\<open>previousPoseRef\<close>, \<^verbatim>\<open>smoothingFactorRef\<close>,
    \<^verbatim>\<open>repCount\<close>) are the fields of a record that every frame takes and returns. A frame
    reads the count the frame before left: the effect, and with it the closure of
    \<^verbatim>\<open>detect\<close>, is created anew whenever \<^verbatim>\<open>repCount\<close> changes.
  \<^item> \<^verbatim>\<open>Math.random()\<close> is an input: every frame is given the number the call would return.
  \<^item> Reading a property of \<^verbatim>\<open>undefined\<close> throws \<^verbatim>\<open>TypeError\<close>; the frame then ends with
    that error, and the animation loop is not rescheduled.
  \<^item> The table \<^verbatim>\<open>getAdjacentPairs(MoveNet)\<close> belongs to the pose library and is a parameter.
  \<^item> A frame of the model is one on which video, canvas, drawing context and detector are
    present; the canvas operations themselves are not modelled.
\<close>

subsection \<open>Data\<close>

record keypoint =
  kp_x :: real
  kp_y :: real
  kp_score :: real
  kp_name :: string

record pose =
  keypoints :: "keypoint list"
  pose_score :: real

datatype jsnum = Num real | NaN

datatype error = TypeError

record session_state =
  previousPoseRef :: "pose option"
  smoothingFactorRef :: real
  repCount :: nat

record frame_out =
  drawn :: "pose option"
  onPostureUpdate :: "jsnum option"
  onRepCount :: "nat option"

definition no_out :: frame_out where
  "no_out = \<lparr>drawn = None, onPostureUpdate = None, onRepCount = None\<rparr>"

text \<open>The component mounts with no previous pose, smoothing factor 0.7 and zero reps.\<close>

definition initial_state :: session_state where
  "initial_state = \<lparr>previousPoseRef = None, smoothingFactorRef = 0.7, repCount = 0\<rparr>"

subsection \<open>\<^verbatim>\<open>smoothPoseMovement\<close>\<close>

text \<open>
  The callback of \<^verbatim>\<open>keypoints.map\<close>: \<^verbatim>\<open>prevKp\<close> is \<^verbatim>\<open>undefined\<close> when the previous pose has no
  keypoint at \<^verbatim>\<open>index\<close>, and the guard \<^verbatim>\<open>prevKp && ...\<close> then returns \<^verbatim>\<open>kp\<close> itself.
\<close>

definition smoothKeypoint :: "real \<Rightarrow> keypoint list \<Rightarrow> nat \<Rightarrow> keypoint \<Rightarrow> keypoint" where
  "smoothKeypoint smoothingFactor prevKps index kp =
     (if index < length prevKps then
        (let prevKp = prevKps ! index in
         if kp_score kp > 0.3 \<and> kp_score prevKp > 0.3 then
           kp\<lparr>kp_x := kp_x prevKp * smoothingFactor + kp_x kp * (1 - smoothingFactor),
              kp_y := kp_y prevKp * smoothingFactor + kp_y kp * (1 - smoothingFactor)\<rparr>
         else kp)
      else kp)"

definition smoothPoseMovement :: "real \<Rightarrow> pose \<Rightarrow> pose option \<Rightarrow> pose" where
  "smoothPoseMovement smoothingFactor currentPose previousPose =
     (case previousPose of
        None \<Rightarrow> currentPose
      | Some prev \<Rightarrow>
          currentPose\<lparr>keypoints :=
            map (\<lambda>(index, kp). smoothKeypoint smoothingFactor (keypoints prev) index kp)
              (enumerate 0 (keypoints currentPose))\<rparr>)"

text \<open>
  Lines 70 and 71 of \<^verbatim>\<open>detect\<close>: the pose is smoothed against \<^verbatim>\<open>previousPoseRef.current\<close>, and the
  reference is then set to the current, unsmoothed pose.
\<close>

definition smooth_step :: "session_state \<Rightarrow> pose \<Rightarrow> pose \<times> session_state" where
  "smooth_step st currentPose =
     (smoothPoseMovement (smoothingFactorRef st) currentPose (previousPoseRef st),
      st\<lparr>previousPoseRef := Some currentPose\<rparr>)"

text \<open>The smoothed poses of a sequence of frames, in order.\<close>

fun smooth_run :: "session_state \<Rightarrow> pose list \<Rightarrow> pose list" where
  "smooth_run st [] = []"
| "smooth_run st (currentPose # rest) =
     (case smooth_step st currentPose of
        (smoothedPose, st') \<Rightarrow> smoothedPose # smooth_run st' rest)"

subsection \<open>Posture score\<close>

text \<open>
  \<^verbatim>\<open>reduce\<close> with initial value 0 is a left fold. On an empty array the sum is 0 and the
  length is 0, and \<^verbatim>\<open>0 / 0\<close> is \<^verbatim>\<open>NaN\<close>; a non-empty array has a positive length.
\<close>

definition averageConfidence :: "pose \<Rightarrow> jsnum" where
  "averageConfidence currentPose =
     (let s = foldl (\<lambda>sum kp. sum + kp_score kp) 0 (keypoints currentPose);
          n = length (keypoints currentPose)
      in if n = 0 then NaN else Num (s / real n))"

text \<open>\<^verbatim>\<open>Math.round\<close> rounds to the nearest integer, a half upwards; \<^verbatim>\<open>NaN\<close> stays \<^verbatim>\<open>NaN\<close>.\<close>

fun Math_round :: "jsnum \<Rightarrow> jsnum" where
  "Math_round NaN = NaN"
| "Math_round (Num v) = Num (of_int \<lfloor>v + 1 / 2\<rfloor>)"

fun js_times :: "jsnum \<Rightarrow> real \<Rightarrow> jsnum" where
  "js_times NaN c = NaN"
| "js_times (Num v) c = Num (v * c)"

definition postureScore :: "pose \<Rightarrow> jsnum" where
  "postureScore currentPose = Math_round (js_times (averageConfidence currentPose) 100)"

subsection \<open>\<^verbatim>\<open>detectRepMovement\<close>\<close>

text \<open>The value \<^verbatim>\<open>avgY\<close> that the function computes from the two wrists and never reads.\<close>

definition avgY :: "pose \<Rightarrow> real" where
  "avgY p = (kp_y (keypoints p ! 10) + kp_y (keypoints p ! 9)) / 2"

definition wrists_confident :: "pose \<Rightarrow> bool" where
  "wrists_confident p =
     (kp_score (keypoints p ! 10) > 0.5 \<and> kp_score (keypoints p ! 9) > 0.5)"

text \<open>
  The argument \<open>count\<close> is the \<^verbatim>\<open>repCount\<close> the closure reads. The result is the new
  \<^verbatim>\<open>repCount\<close> and the argument of \<^verbatim>\<open>onRepCount\<close>, if it was called.
  With ten keypoints or fewer \<^verbatim>\<open>pose.keypoints[10]\<close> is \<^verbatim>\<open>undefined\<close> and reading its
  \<^verbatim>\<open>score\<close> throws.
\<close>

definition detectRepMovement :: "pose \<Rightarrow> real \<Rightarrow> nat \<Rightarrow> error + (nat \<times> nat option)" where
  "detectRepMovement p random count =
     (if length (keypoints p) \<le> 10 then Inl TypeError
      else if wrists_confident p then
        (let unused = avgY p in
         if random < 0.015 then
           (let newCount = count + 1 in Inr (newCount, Some newCount))
         else Inr (count, None))
      else Inr (count, None))"

subsection \<open>One frame of \<^verbatim>\<open>detect\<close>\<close>

text \<open>
  Of \<^verbatim>\<open>drawPose\<close> only the reads that can throw are kept. For an adjacent pair \<open>(i, j)\<close> the
  test \<^verbatim>\<open>kp1.score > 0.3 && kp2.score > 0.3\<close> reads the score of keypoint \<open>i\<close>, and the score
  of keypoint \<open>j\<close> only when the first comparison holds. The loop over the keypoints
  themselves reads nothing that can be missing.
\<close>

definition pair_readable :: "keypoint list \<Rightarrow> nat \<times> nat \<Rightarrow> bool" where
  "pair_readable kps pr =
     (case pr of (i, j) \<Rightarrow>
        i < length kps \<and> (if kp_score (kps ! i) > 0.3 then j < length kps else True))"

definition drawPose :: "(nat \<times> nat) list \<Rightarrow> pose \<Rightarrow> error + unit" where
  "drawPose adjacentPairs p =
     (if list_all (pair_readable (keypoints p)) adjacentPairs then Inr () else Inl TypeError)"

text \<open>
  A frame takes the array returned by \<^verbatim>\<open>estimatePoses\<close> and the random number. An error
  carries the state and the callbacks made before the throw.
\<close>

definition detect ::
  "(nat \<times> nat) list \<Rightarrow> session_state \<Rightarrow> pose list \<Rightarrow> real \<Rightarrow>
     (error \<times> session_state \<times> frame_out) + (session_state \<times> frame_out)" where
  "detect adjacentPairs st poses random =
     (case poses of
        [] \<Rightarrow> Inr (st, no_out)
      | currentPose # _ \<Rightarrow>
          (case smooth_step st currentPose of
             (smoothedPose, st1) \<Rightarrow>
               (case drawPose adjacentPairs smoothedPose of
                  Inl e \<Rightarrow> Inl (e, st1, no_out)
                | Inr _ \<Rightarrow>
                    (let out1 = no_out\<lparr>drawn := Some smoothedPose,
                                       onPostureUpdate := Some (postureScore currentPose)\<rparr>
                     in case detectRepMovement currentPose random (repCount st1) of
                          Inl e \<Rightarrow> Inl (e, st1, out1)
                        | Inr (n, ev) \<Rightarrow> Inr (st1\<lparr>repCount := n\<rparr>, out1\<lparr>onRepCount := ev\<rparr>)))))"

text \<open>A session: frames in arrival order, stopped by the first error.\<close>

fun run ::
  "(nat \<times> nat) list \<Rightarrow> session_state \<Rightarrow> (pose list \<times> real) list \<Rightarrow>
     (error \<times> session_state \<times> frame_out list) + (session_state \<times> frame_out list)" where
  "run adjacentPairs st [] = Inr (st, [])"
| "run adjacentPairs st ((poses, random) # rest) =
     (case detect adjacentPairs st poses random of
        Inl (e, st', out) \<Rightarrow> Inl (e, st', [out])
      | Inr (st', out) \<Rightarrow>
          (case run adjacentPairs st' rest of
             Inl (e, st'', outs) \<Rightarrow> Inl (e, st'', out # outs)
           | Inr (st'', outs) \<Rightarrow> Inr (st'', out # outs)))"

fun final_state ::
  "(error \<times> session_state \<times> 'a) + (session_state \<times> 'a) \<Rightarrow> session_state" where
  "final_state (Inl (e, st, outs)) = st"
| "final_state (Inr (st, outs)) = st"

fun outputs :: "(error \<times> session_state \<times> 'a) + (session_state \<times> 'a) \<Rightarrow> 'a" where
  "outputs (Inl (e, st, outs)) = outs"
| "outputs (Inr (st, outs)) = outs"

text \<open>
  The table the pose library returns for MoveNet (the COCO skeleton of 17 keypoints), for
  concrete sessions.
\<close>

definition movenet_pairs :: "(nat \<times> nat) list" where
  "movenet_pairs =
     [(0, 1), (0, 2), (1, 3), (2, 4), (5, 6), (5, 7), (5, 11), (6, 8), (6, 12), (7, 9),
      (8, 10), (11, 12), (11, 13), (12, 14), (13, 15), (14, 16)]"

text \<open>A pose of \<open>n\<close> keypoints, all at the same place and with the same confidence.\<close>

definition flat_pose :: "nat \<Rightarrow> real \<Rightarrow> real \<Rightarrow> real \<Rightarrow> pose" where
  "flat_pose n xv yv c =
     \<lparr>keypoints = replicate n \<lparr>kp_x = xv, kp_y = yv, kp_score = c, kp_name = ''kp''\<rparr>,
      pose_score = c\<rparr>"

subsection \<open>Predicates on frames\<close>

definition zero_confidence :: "pose \<Rightarrow> bool" where
  "zero_confidence p = list_all (\<lambda>kp. kp_score kp = 0) (keypoints p)"

subsection \<open>The smoother as the specification words it\<close>

text \<open>
  The reference definition to compare \<^verbatim>\<open>smoothPoseMovement\<close> with. A keypoint's position is
  blended with the previous one when the confidence of both exceeds 0.3 and is the current
  one otherwise; identifier and confidence are the current frame's. The state is the
  previous pose, or none before the first frame, and becomes the current pose.
\<close>

definition spec_smooth_keypoint :: "real \<Rightarrow> keypoint \<Rightarrow> keypoint \<Rightarrow> keypoint" where
  "spec_smooth_keypoint \<alpha> previous current =
     (if kp_score current > 0.3 \<and> kp_score previous > 0.3
      then \<lparr>kp_x = kp_x previous * \<alpha> + kp_x current * (1 - \<alpha>),
            kp_y = kp_y previous * \<alpha> + kp_y current * (1 - \<alpha>),
            kp_score = kp_score current, kp_name = kp_name current\<rparr>
      else current)"

definition spec_smooth :: "real \<Rightarrow> pose option \<Rightarrow> pose \<Rightarrow> pose \<times> pose option" where
  "spec_smooth \<alpha> state current =
     (case state of
        None \<Rightarrow> (current, Some current)
      | Some previous \<Rightarrow>
          (\<lparr>keypoints =
              map (\<lambda>i. spec_smooth_keypoint \<alpha> (keypoints previous ! i) (keypoints current ! i))
                [0..<length (keypoints current)],
            pose_score = pose_score current\<rparr>,
           Some current))"

subsection \<open>Vocabulary for the posture score\<close>

text \<open>The pose with keypoint \<open>i\<close> given the confidence \<open>c\<close> and everything else kept.\<close>

definition with_confidence :: "pose \<Rightarrow> nat \<Rightarrow> real \<Rightarrow> pose" where
  "with_confidence p i c =
     p\<lparr>keypoints := (keypoints p)[i := (keypoints p ! i)\<lparr>kp_score := c\<rparr>]\<rparr>"

text \<open>
  The comparison \<^verbatim>\<open><=\<close> of two JavaScript numbers: every comparison with \<^verbatim>\<open>NaN\<close> is false.
\<close>

fun js_le :: "jsnum \<Rightarrow> jsnum \<Rightarrow> bool" where
  "js_le (Num a) (Num b) = (a \<le> b)"
| "js_le _ _ = False"

definition confidences_in_unit :: "pose \<Rightarrow> bool" where
  "confidences_in_unit p = list_all (\<lambda>kp. 0 \<le> kp_score kp \<and> kp_score kp \<le> 1) (keypoints p)"

text \<open>The mean of the confidences, as the specification words the score.\<close>

definition mean_confidence :: "pose \<Rightarrow> real" where
  "mean_confidence p = sum_list (map kp_score (keypoints p)) / real (length (keypoints p))"

definition empty_pose :: pose where
  "empty_pose = \<lparr>keypoints = [], pose_score = 0\<rparr>"

subsection \<open>Session aggregation\<close>

text \<open>
  Modelled from the spec: the \<^verbatim>\<open>SessionAggregator\<close> of section 4.4 and the record it hands to
  storage. The repository sources modelled here hold the table \<^verbatim>\<open>exercise_sessions\<close> and the route that stores
  such a record, but no code that produces one. The aggregator keeps the timestamp of the
  first frame, the number of frames, the running mean of the posture score, the rep count
  and whether it has been finalized. The specification does not say how \<^verbatim>\<open>accuracy\<close> is
  computed from the frames, so that computation is a parameter of \<open>finalize\<close>.
\<close>

datatype contract_error = ContractViolation

record aggregator =
  agg_exerciseType :: string
  agg_notes :: string
  firstTimestamp :: "int option"
  framesProcessed :: nat
  meanPosture :: real
  aggReps :: nat
  finalized :: bool

record exercise_session_metrics =
  m_exerciseType :: string
  m_duration :: int
  m_reps :: nat
  m_accuracy :: "real option"
  m_postureScore :: "real option"
  m_notes :: string

text \<open>Modelled from the spec: the aggregator created when a session starts.\<close>

definition start_session :: "string \<Rightarrow> string \<Rightarrow> aggregator" where
  "start_session exercise_type note =
     \<lparr>agg_exerciseType = exercise_type, agg_notes = note, firstTimestamp = None,
      framesProcessed = 0, meanPosture = 0, aggReps = 0, finalized = False\<rparr>"

text \<open>
  Modelled from the spec: \<^verbatim>\<open>onFrame(pose, postureScore, repEventOccurred, timestamp)\<close>, rejected
  as a contract violation after \<^verbatim>\<open>finalize\<close>; the mean is updated incrementally and the rep
  count mirrors the rep events.
\<close>

definition onFrame ::
  "aggregator \<Rightarrow> pose \<Rightarrow> real \<Rightarrow> bool \<Rightarrow> int \<Rightarrow> contract_error + aggregator" where
  "onFrame agg p score repEventOccurred timestamp =
     (if finalized agg then Inl ContractViolation
      else Inr (agg
        \<lparr>firstTimestamp :=
           (case firstTimestamp agg of None \<Rightarrow> Some timestamp | Some t \<Rightarrow> Some t),
         framesProcessed := framesProcessed agg + 1,
         meanPosture :=
           meanPosture agg + (score - meanPosture agg) / real (framesProcessed agg + 1),
         aggReps := aggReps agg + (if repEventOccurred then 1 else 0)\<rparr>))"

text \<open>
  Modelled from the spec: \<^verbatim>\<open>finalize()\<close>. The duration is the timestamp of finalize minus the
  timestamp of the first frame, and 0 when no frame was processed; accuracy and posture score
  are absent when no frame was processed; the aggregator is closed afterwards.
\<close>

definition finalize ::
  "(aggregator \<Rightarrow> real) \<Rightarrow> aggregator \<Rightarrow> int \<Rightarrow> exercise_session_metrics \<times> aggregator" where
  "finalize accuracy_of agg timestamp =
     (\<lparr>m_exerciseType = agg_exerciseType agg,
       m_duration = (case firstTimestamp agg of None \<Rightarrow> 0 | Some t \<Rightarrow> timestamp - t),
       m_reps = aggReps agg,
       m_accuracy = (if framesProcessed agg = 0 then None else Some (accuracy_of agg)),
       m_postureScore = (if framesProcessed agg = 0 then None else Some (meanPosture agg)),
       m_notes = agg_notes agg\<rparr>,
      agg\<lparr>finalized := True\<rparr>)"

section \<open>Properties\<close>

subsection \<open>Auxiliary facts about a frame and a session\<close>

lemma smoothPoseMovement_length:
  "length (keypoints (smoothPoseMovement a p q)) = length (keypoints p)"
  by (simp add: smoothPoseMovement_def split: option.splits)

lemma smoothPoseMovement_nth:
  "i < length (keypoints cur) \<Longrightarrow>
   keypoints (smoothPoseMovement a cur (Some prev)) ! i =
     smoothKeypoint a (keypoints prev) i (keypoints cur ! i)"
  by (simp add: smoothPoseMovement_def nth_enumerate_eq)

lemma smoothKeypoint_score: "kp_score (smoothKeypoint a prevKps index kp) = kp_score kp"
  by (simp add: smoothKeypoint_def Let_def)

lemma smoothPoseMovement_scores:
  "map kp_score (keypoints (smoothPoseMovement a cur q)) = map kp_score (keypoints cur)"
proof (cases q)
  case None
  then show ?thesis by (simp add: smoothPoseMovement_def)
next
  case (Some prev)
  show ?thesis unfolding Some
    by (rule nth_equalityI)
      (simp_all add: smoothPoseMovement_length smoothPoseMovement_nth smoothKeypoint_score)
qed

lemma smoothPoseMovement_score_nth:
  "i < length (keypoints p) \<Longrightarrow>
   kp_score (keypoints (smoothPoseMovement a p q) ! i) = kp_score (keypoints p ! i)"
  using smoothPoseMovement_scores [of a p q]
  by (metis length_map nth_map smoothPoseMovement_length)

lemma pair_readable_smoothed:
  "pair_readable (keypoints (smoothPoseMovement a p q)) = pair_readable (keypoints p)"
proof
  fix pr
  show "pair_readable (keypoints (smoothPoseMovement a p q)) pr = pair_readable (keypoints p) pr"
    by (cases pr) (auto simp: pair_readable_def smoothPoseMovement_length
        smoothPoseMovement_score_nth)
qed

lemma drawPose_smoothed: "drawPose ap (smoothPoseMovement a p q) = drawPose ap p"
  by (simp add: drawPose_def pair_readable_smoothed)

lemma detect_repCount:
  "repCount (final_state (detect ap st poses r)) =
     (case poses of
        [] \<Rightarrow> repCount st
      | p # _ \<Rightarrow>
          (if drawPose ap p = Inr () \<and> 10 < length (keypoints p) \<and> wrists_confident p
              \<and> r < 0.015
           then repCount st + 1 else repCount st))"
  by (auto simp: detect_def smooth_step_def drawPose_smoothed detectRepMovement_def Let_def
      split: list.splits sum.splits prod.splits)

lemma detect_onRepCount:
  "onRepCount (outputs (detect ap st poses r)) =
     (case poses of
        [] \<Rightarrow> None
      | p # _ \<Rightarrow>
          (if drawPose ap p = Inr () \<and> 10 < length (keypoints p) \<and> wrists_confident p
              \<and> r < 0.015
           then Some (repCount st + 1) else None))"
  by (auto simp: detect_def smooth_step_def drawPose_smoothed detectRepMovement_def Let_def
      no_out_def split: list.splits sum.splits prod.splits)

lemma run_Cons_final:
  "final_state (run ap st ((poses, r) # rest)) =
     (case detect ap st poses r of
        Inl (e, st', out) \<Rightarrow> st'
      | Inr (st', out) \<Rightarrow> final_state (run ap st' rest))"
  by (simp split: sum.splits prod.splits)

lemma run_Cons_outputs:
  "outputs (run ap st ((poses, r) # rest)) =
     (case detect ap st poses r of
        Inl (e, st', out) \<Rightarrow> [out]
      | Inr (st', out) \<Rightarrow> out # outputs (run ap st' rest))"
  by (simp split: sum.splits prod.splits)

lemma zero_confidence_not_confident:
  "zero_confidence p \<Longrightarrow> 10 < length (keypoints p) \<Longrightarrow> \<not> wrists_confident p"
  by (simp add: zero_confidence_def wrists_confident_def list_all_length)

lemma detect_zero_confidence:
  assumes "list_all zero_confidence poses"
  shows "repCount (final_state (detect ap st poses r)) = repCount st"
    and "onRepCount (outputs (detect ap st poses r)) = None"
  using assms zero_confidence_not_confident
  by (auto simp: detect_repCount detect_onRepCount split: list.splits)

lemma run_zero_confidence:
  "list_all (\<lambda>f. list_all zero_confidence (fst f)) frames \<Longrightarrow>
   repCount (final_state (run ap st frames)) = repCount st \<and>
   list_all (\<lambda>out. onRepCount out = None) (outputs (run ap st frames))"
proof (induction frames arbitrary: st)
  case Nil
  show ?case by simp
next
  case (Cons f frames)
  obtain poses r where f: "f = (poses, r)" by (cases f)
  from Cons.prems f have z: "list_all zero_confidence poses"
    and rest: "list_all (\<lambda>f. list_all zero_confidence (fst f)) frames" by simp_all
  note d = detect_zero_confidence [OF z, of ap st r]
  show ?case
  proof (cases "detect ap st poses r")
    case (Inl a)
    obtain e st' out where a: "a = (e, st', out)" by (cases a)
    from d Inl a show ?thesis
      unfolding f run_Cons_final run_Cons_outputs by simp
  next
    case (Inr b)
    obtain st' out where b: "b = (st', out)" by (cases b)
    from d Inr b have "repCount st' = repCount st" "onRepCount out = None" by simp_all
    with Cons.IH [OF rest, of st'] Inr b show ?thesis
      unfolding f run_Cons_final run_Cons_outputs by simp
  qed
qed

lemma smoothKeypoint_spec:
  "index < length prevKps \<Longrightarrow>
   smoothKeypoint a prevKps index kp = spec_smooth_keypoint a (prevKps ! index) kp"
  by (cases kp) (simp add: smoothKeypoint_def spec_smooth_keypoint_def Let_def)

lemma smooth_run_nth:
  "n < length frames \<Longrightarrow>
   smooth_run st frames ! n =
     smoothPoseMovement (smoothingFactorRef st) (frames ! n)
       (if n = 0 then previousPoseRef st else Some (frames ! (n - 1)))"
proof (induction frames arbitrary: st n)
  case Nil
  then show ?case by simp
next
  case (Cons p frames)
  show ?case
  proof (cases n)
    case 0
    then show ?thesis by (simp add: smooth_step_def)
  next
    case (Suc m)
    with Cons.prems have m: "m < length frames" by simp
    from Cons.IH [OF m, of "st\<lparr>previousPoseRef := Some p\<rparr>"] Suc
    show ?thesis by (cases m) (simp_all add: smooth_step_def)
  qed
qed

lemma smoothPoseMovement_nth_blend:
  "i < length (keypoints cur) \<Longrightarrow>
   keypoints (smoothPoseMovement a cur (Some prev)) ! i =
     (if i < length (keypoints prev) \<and> kp_score (keypoints cur ! i) > 0.3
         \<and> kp_score (keypoints prev ! i) > 0.3
      then (keypoints cur ! i)
        \<lparr>kp_x := kp_x (keypoints prev ! i) * a + kp_x (keypoints cur ! i) * (1 - a),
         kp_y := kp_y (keypoints prev ! i) * a + kp_y (keypoints cur ! i) * (1 - a)\<rparr>
      else keypoints cur ! i)"
  by (simp add: smoothPoseMovement_nth smoothKeypoint_def Let_def)

lemma detect_isl:
  "isl (detect ap st (p # rest) r) \<longleftrightarrow>
     \<not> (list_all (pair_readable (keypoints p)) ap \<and> 10 < length (keypoints p))"
  by (auto simp: detect_def smooth_step_def drawPose_def pair_readable_smoothed
      detectRepMovement_def Let_def split: sum.splits)

lemma detect_scored:
  "onPostureUpdate (outputs (detect ap st (p # rest) r)) = Some s \<longleftrightarrow>
     drawPose ap p = Inr () \<and> s = postureScore p"
  by (auto simp: detect_def smooth_step_def drawPose_smoothed detectRepMovement_def Let_def
      no_out_def split: sum.splits)

lemma drawn_pose_nonempty:
  "ap \<noteq> [] \<Longrightarrow> drawPose ap p = Inr () \<Longrightarrow> keypoints p \<noteq> []"
  by (cases ap) (auto simp: drawPose_def pair_readable_def split: if_splits)

lemma foldl_sum: "foldl (\<lambda>sum kp. sum + kp_score kp) a kps = a + sum_list (map kp_score kps)"
  by (induction kps arbitrary: a) simp_all

lemma postureScore_nonempty:
  "keypoints p \<noteq> [] \<Longrightarrow> postureScore p = Num (of_int (round (mean_confidence p * 100)))"
  by (simp add: postureScore_def averageConfidence_def foldl_sum mean_confidence_def round_def Let_def)

lemma postureScore_empty: "keypoints p = [] \<Longrightarrow> postureScore p = NaN"
  by (simp add: postureScore_def averageConfidence_def)

lemma sum_scores_bounds:
  "list_all (\<lambda>kp. 0 \<le> kp_score kp \<and> kp_score kp \<le> 1) kps \<Longrightarrow>
   0 \<le> sum_list (map kp_score kps) \<and> sum_list (map kp_score kps) \<le> real (length kps)"
  by (induction kps) auto

lemma mean_bounds:
  assumes "keypoints p \<noteq> []" "confidences_in_unit p"
  shows "0 \<le> mean_confidence p" "mean_confidence p \<le> 1"
proof -
  from assms(1) have n: "0 < real (length (keypoints p))" by simp
  from sum_scores_bounds [OF assms(2) [unfolded confidences_in_unit_def]]
  have b: "0 \<le> sum_list (map kp_score (keypoints p))"
    "sum_list (map kp_score (keypoints p)) \<le> real (length (keypoints p))" by simp_all
  from b(1) n show "0 \<le> mean_confidence p" by (simp add: mean_confidence_def)
  from b(2) n show "mean_confidence p \<le> 1" by (simp add: mean_confidence_def)
qed

lemma round_percent_bounds:
  fixes m :: real
  assumes "0 \<le> m" "m \<le> 1"
  shows "0 \<le> round (m * 100)" "round (m * 100) \<le> 100"
proof -
  from assms(1) have "round (0::real) \<le> round (m * 100)" by (intro round_mono) simp
  then show "0 \<le> round (m * 100)" by simp
  from assms(2) have "round (m * 100) \<le> round (100::real)" by (intro round_mono) simp
  then show "round (m * 100) \<le> 100" by simp
qed

lemma zero_mean: "zero_confidence p \<Longrightarrow> mean_confidence p = 0"
proof -
  assume "zero_confidence p"
  then have "map kp_score (keypoints p) = replicate (length (keypoints p)) 0"
    by (auto simp: zero_confidence_def list_all_length intro: nth_equalityI)
  then show ?thesis by (simp add: mean_confidence_def sum_list_replicate)
qed

lemma sum_list_update_mono:
  fixes f :: "'a \<Rightarrow> real"
  shows "i < length xs \<Longrightarrow> f (xs ! i) \<le> f y \<Longrightarrow>
    sum_list (map f xs) \<le> sum_list (map f (xs[i := y]))"
proof (induction xs arbitrary: i)
  case Nil
  then show ?case by simp
next
  case (Cons x xs)
  then show ?case by (cases i) auto
qed

subsection \<open>Rep counting\<close>

text \<open>
  Claim C1. The claim: the rep count of a frame is a function of the trajectory value and of
  the counter's state alone; no random process advances it. The code at the same pose (both
  wrists at height 50 with confidence 0.9) and the same count 0: when \<^verbatim>\<open>Math.random()\<close>
  returns 0.01 the count becomes 1 and \<^verbatim>\<open>onRepCount(1)\<close> is called, when it returns 0.5 the
  count stays 0 and nothing is called. The count is decided by the random number; the
  trajectory value \<^verbatim>\<open>avgY\<close> is computed and not read. Two sessions over the same single
  frame end with the counts 1 and 0.
\<close>

theorem rep_count_decided_by_random_draw:
  "detectRepMovement (flat_pose 17 0 50 0.9) 0.01 0 = Inr (1, Some 1) \<and>
   detectRepMovement (flat_pose 17 0 50 0.9) 0.5 0 = Inr (0, None) \<and>
   avgY (flat_pose 17 0 50 0.9) = 50 \<and>
   repCount (final_state (run movenet_pairs initial_state
      [([flat_pose 17 0 50 0.9], 0.01)])) = 1 \<and>
   repCount (final_state (run movenet_pairs initial_state
      [([flat_pose 17 0 50 0.9], 0.5)])) = 0"
  by code_simp

text \<open>
  Claim C2. The claim: the count grows at most once for each full cycle of the trajectory
  across an upper and a lower threshold, and a trajectory that stays inside the band never
  makes it grow. The code on a trajectory that never moves: two frames with both wrists at
  height 50 and confidence 0.9, the random number 0.01 on each. The trajectory value is 50
  on both frames, so it crosses no threshold, wherever the two thresholds lie, and completes
  no cycle; the count is 2. It is the random number of claim C1 that counts.
\<close>

theorem constant_trajectory_counted_twice:
  "repCount (final_state (run movenet_pairs initial_state
      [([flat_pose 17 0 50 0.9], 0.01), ([flat_pose 17 0 50 0.9], 0.01)])) = 2 \<and>
   map (\<lambda>f. avgY (hd (fst f)))
      [([flat_pose 17 0 50 0.9], 0.01 :: real), ([flat_pose 17 0 50 0.9], 0.01)] = [50, 50]"
  by code_simp

text \<open>
  Claim C8. The check of \<^verbatim>\<open>detectRepMovement\<close> is a confidence above 0.5 on both wrists, so
  for any threshold \<open>t\<close> up to 0.5 (the smoother's 0.3 among them): on a frame that has the
  two wrist keypoints and on which one of them has a confidence of at most \<open>t\<close>, the
  function returns the count unchanged and does not call \<^verbatim>\<open>onRepCount\<close>, whatever the random
  number, and so does the whole frame. Over a sequence of frames whose keypoints all have
  confidence 0, the count at the end (of every prefix, the sequence being arbitrary) is the
  count at the start and \<^verbatim>\<open>onRepCount\<close> is never called; from the initial state the count
  stays 0.
\<close>

theorem low_confidence_frame_not_counted:
  fixes t :: real
  assumes "t \<le> 0.5"
  shows
  "(10 < length (keypoints p) \<and>
      (kp_score (keypoints p ! 10) \<le> t \<or> kp_score (keypoints p ! 9) \<le> t) \<longrightarrow>
      detectRepMovement p random count = Inr (count, None) \<and>
      repCount (final_state (detect ap st (p # ps) random)) = repCount st \<and>
      onRepCount (outputs (detect ap st (p # ps) random)) = None) \<and>
   (list_all (\<lambda>f. list_all zero_confidence (fst f)) frames \<longrightarrow>
      repCount (final_state (run ap st frames)) = repCount st \<and>
      list_all (\<lambda>out. onRepCount out = None) (outputs (run ap st frames)))"
proof (intro conjI impI)
  assume a: "10 < length (keypoints p) \<and>
      (kp_score (keypoints p ! 10) \<le> t \<or> kp_score (keypoints p ! 9) \<le> t)"
  with assms have nc: "\<not> wrists_confident p"
    by (auto simp: wrists_confident_def)
  from a nc show "detectRepMovement p random count = Inr (count, None)"
    by (simp add: detectRepMovement_def)
  from nc show "repCount (final_state (detect ap st (p # ps) random)) = repCount st"
    by (simp add: detect_repCount)
  from nc show "onRepCount (outputs (detect ap st (p # ps) random)) = None"
    by (simp add: detect_onRepCount)
next
  assume "list_all (\<lambda>f. list_all zero_confidence (fst f)) frames"
  from run_zero_confidence [OF this]
  show "repCount (final_state (run ap st frames)) = repCount st"
    and "list_all (\<lambda>out. onRepCount out = None) (outputs (run ap st frames))"
    by simp_all
qed

text \<open>
  A frame with wrists at confidence 0.3 and a draw of 0.001 that would otherwise count, and
  ten frames of confidence 0 from the initial state.
\<close>

theorem low_confidence_frame_not_counted_witness:
  "detectRepMovement (flat_pose 17 0 50 0.3) 0.001 5 = Inr (5, None) \<and>
   repCount (final_state (run movenet_pairs initial_state
      (replicate 10 ([flat_pose 17 0 50 0], 0.001)))) = 0 \<and>
   list_all (\<lambda>out. onRepCount out = None) (outputs (run movenet_pairs initial_state
      (replicate 10 ([flat_pose 17 0 50 0], 0.001))))"
proof -
  have t: "(0.3 :: real) \<le> 0.5" by simp
  have h1: "10 < length (keypoints (flat_pose 17 0 50 0.3)) \<and>
      (kp_score (keypoints (flat_pose 17 0 50 0.3) ! 10) \<le> 0.3 \<or>
       kp_score (keypoints (flat_pose 17 0 50 0.3) ! 9) \<le> 0.3)"
    by (simp add: flat_pose_def)
  have h2: "list_all (\<lambda>f. list_all zero_confidence (fst f))
      (replicate 10 ([flat_pose 17 0 50 0], 0.001 :: real))"
    by (simp add: list_all_length zero_confidence_def flat_pose_def)
  note w = low_confidence_frame_not_counted [OF t, of "flat_pose 17 0 50 0.3" "0.001" 5
      movenet_pairs initial_state "[]" "replicate 10 ([flat_pose 17 0 50 0], 0.001)"]
  from w [THEN conjunct1, THEN mp, OF h1] w [THEN conjunct2, THEN mp, OF h2]
  show ?thesis by (simp add: initial_state_def)
qed

subsection \<open>Smoothing\<close>

text \<open>
  Claim C4. When the previous pose, if there is one, has a keypoint at every index of the
  current pose (as it has while the cardinality of a session is constant), lines 70 and 71
  of \<^verbatim>\<open>detect\<close> compute what the reference definition does: on the first frame the output
  is the input and the state becomes that pose; afterwards the position of keypoint \<open>i\<close> is
  \<open>previous[i] * \<alpha> + current[i] * (1 - \<alpha>)\<close> when both confidences exceed 0.3 and the
  current position otherwise, and the state becomes the current pose. The confidences of the
  output are those of the current frame, with or without that condition.
\<close>

theorem smoother_matches_reference:
  assumes "\<forall>previous. previousPoseRef st = Some previous \<longrightarrow>
             length (keypoints current) \<le> length (keypoints previous)"
  shows "(fst (smooth_step st current), previousPoseRef (snd (smooth_step st current))) =
           spec_smooth (smoothingFactorRef st) (previousPoseRef st) current \<and>
         map kp_score (keypoints (fst (smooth_step st current))) =
           map kp_score (keypoints current)"
proof (cases "previousPoseRef st")
  case None
  then show ?thesis
    by (simp add: smooth_step_def spec_smooth_def smoothPoseMovement_def)
next
  case (Some previous)
  with assms have len: "length (keypoints current) \<le> length (keypoints previous)" by simp
  have "keypoints (smoothPoseMovement (smoothingFactorRef st) current (Some previous)) =
        map (\<lambda>i. spec_smooth_keypoint (smoothingFactorRef st) (keypoints previous ! i)
                   (keypoints current ! i)) [0..<length (keypoints current)]"
    using len
    by (intro nth_equalityI)
      (simp_all add: smoothPoseMovement_length smoothPoseMovement_nth smoothKeypoint_spec)
  moreover have "pose_score (smoothPoseMovement (smoothingFactorRef st) current (Some previous)) =
        pose_score current"
    by (simp add: smoothPoseMovement_def)
  ultimately have "smoothPoseMovement (smoothingFactorRef st) current (Some previous) =
      fst (spec_smooth (smoothingFactorRef st) (Some previous) current)"
    by (simp add: spec_smooth_def)
  then have "(fst (smooth_step st current), previousPoseRef (snd (smooth_step st current))) =
      spec_smooth (smoothingFactorRef st) (previousPoseRef st) current"
    using Some by (simp add: smooth_step_def spec_smooth_def)
  moreover have "map kp_score (keypoints (fst (smooth_step st current))) =
      map kp_score (keypoints current)"
    by (simp add: smooth_step_def smoothPoseMovement_scores)
  ultimately show ?thesis by (rule conjI)
qed

text \<open>
  A previous pose at (0, 0) and a current pose at (10, 20), both confident, smoothing factor
  0.7: both definitions give (3, 6).
\<close>

theorem smoother_matches_reference_witness:
  "(fst (smooth_step (initial_state\<lparr>previousPoseRef := Some (flat_pose 17 0 0 0.9)\<rparr>)
          (flat_pose 17 10 20 0.9)),
    previousPoseRef (snd (smooth_step
          (initial_state\<lparr>previousPoseRef := Some (flat_pose 17 0 0 0.9)\<rparr>)
          (flat_pose 17 10 20 0.9)))) =
     spec_smooth 0.7 (Some (flat_pose 17 0 0 0.9)) (flat_pose 17 10 20 0.9) \<and>
   spec_smooth 0.7 (Some (flat_pose 17 0 0 0.9)) (flat_pose 17 10 20 0.9) =
     (flat_pose 17 3 6 0.9, Some (flat_pose 17 10 20 0.9))"
proof -
  let ?st = "initial_state\<lparr>previousPoseRef := Some (flat_pose 17 0 0 0.9)\<rparr>"
  have h: "\<forall>previous. previousPoseRef ?st = Some previous \<longrightarrow>
      length (keypoints (flat_pose 17 10 20 0.9)) \<le> length (keypoints previous)"
    by (simp add: flat_pose_def)
  have v: "spec_smooth 0.7 (Some (flat_pose 17 0 0 0.9)) (flat_pose 17 10 20 0.9) =
     (flat_pose 17 3 6 0.9, Some (flat_pose 17 10 20 0.9))"
    by code_simp
  from smoother_matches_reference [OF h, THEN conjunct1] v
  show ?thesis by (simp add: initial_state_def)
qed

text \<open>
  With smoothing factor 1 the output is not frozen on the first pose. Three frames at
  positions 1, 2 and 3, all with confidence 0.9: the output of the third frame is the second
  pose, which is not the first. The reference that \<^verbatim>\<open>detect\<close> keeps is the previous raw pose.
\<close>

theorem alpha_one_not_frozen_on_first_pose:
  "smooth_run (initial_state\<lparr>smoothingFactorRef := 1\<rparr>)
      [flat_pose 17 1 1 0.9, flat_pose 17 2 2 0.9, flat_pose 17 3 3 0.9] ! 2 =
     flat_pose 17 2 2 0.9 \<and>
   flat_pose 17 2 2 0.9 \<noteq> flat_pose 17 1 1 0.9"
  by code_simp

text \<open>
  Claim C3, as the code has it. With smoothing factor 1, on every frame after the first the
  output has the keypoints of the current frame, and keypoint \<open>i\<close> takes its position from
  the frame immediately before when that frame has a keypoint \<open>i\<close> and both confidences
  exceed 0.3; identifier and confidence stay the current frame's. Every other keypoint is
  the current one unchanged.
\<close>

theorem alpha_one_shows_previous_frame:
  assumes "smoothingFactorRef st = 1" and "0 < n" and "n < length frames"
  shows "length (keypoints (smooth_run st frames ! n)) = length (keypoints (frames ! n)) \<and>
    (\<forall>i < length (keypoints (frames ! n)).
       keypoints (smooth_run st frames ! n) ! i =
         (if i < length (keypoints (frames ! (n - 1)))
             \<and> kp_score (keypoints (frames ! n) ! i) > 0.3
             \<and> kp_score (keypoints (frames ! (n - 1)) ! i) > 0.3
          then (keypoints (frames ! n) ! i)
            \<lparr>kp_x := kp_x (keypoints (frames ! (n - 1)) ! i),
             kp_y := kp_y (keypoints (frames ! (n - 1)) ! i)\<rparr>
          else keypoints (frames ! n) ! i))"
proof -
  from assms have out: "smooth_run st frames ! n =
      smoothPoseMovement 1 (frames ! n) (Some (frames ! (n - 1)))"
    by (simp add: smooth_run_nth)
  show ?thesis unfolding out
    by (simp add: smoothPoseMovement_length smoothPoseMovement_nth_blend)
qed

text \<open>The left wrist of the third of three frames has the position of the second frame.\<close>

theorem alpha_one_shows_previous_frame_witness:
  "keypoints (smooth_run (initial_state\<lparr>smoothingFactorRef := 1\<rparr>)
      [flat_pose 17 1 1 0.9, flat_pose 17 2 2 0.9, flat_pose 17 3 3 0.9] ! 2) ! 9 =
   \<lparr>kp_x = 2, kp_y = 2, kp_score = 0.9, kp_name = ''kp''\<rparr>"
proof -
  let ?st = "initial_state\<lparr>smoothingFactorRef := 1\<rparr>"
  let ?fs = "[flat_pose 17 1 1 0.9, flat_pose 17 2 2 0.9, flat_pose 17 3 3 0.9]"
  have h: "smoothingFactorRef ?st = 1" "0 < (2::nat)" "2 < length ?fs"
    by simp_all
  have i: "9 < length (keypoints (?fs ! 2))"
    by (simp add: flat_pose_def)
  from alpha_one_shows_previous_frame [OF h, THEN conjunct2, rule_format, OF i]
  show ?thesis by (simp add: flat_pose_def)
qed

text \<open>
  A session whose first frame has 17 keypoints and whose second has 18. No error is raised:
  the second frame is drawn with its first 17 keypoints blended with the first frame
  (\<open>0 * 0.7 + 10 * 0.3 = 3\<close>) and the 18th passed through, and its posture score is reported.
\<close>

theorem longer_frame_processed_without_error:
  "\<not> isl (run movenet_pairs initial_state
      [([flat_pose 17 0 0 0.9], 0.5), ([flat_pose 18 10 10 0.9], 0.5)]) \<and>
   map (\<lambda>out. map_option (\<lambda>p. map kp_x (keypoints p)) (drawn out))
     (outputs (run movenet_pairs initial_state
        [([flat_pose 17 0 0 0.9], 0.5), ([flat_pose 18 10 10 0.9], 0.5)])) =
     [Some (replicate 17 0), Some (replicate 17 3 @ [10])] \<and>
   map onPostureUpdate
     (outputs (run movenet_pairs initial_state
        [([flat_pose 17 0 0 0.9], 0.5), ([flat_pose 18 10 10 0.9], 0.5)])) =
     [Some (Num 90), Some (Num 90)]"
  by code_simp

text \<open>
  Claim C5, as the code has it. A frame whose cardinality differs from the previous frame's
  is not rejected. The smoother returns a pose of the current frame's cardinality: a keypoint
  whose index exists in the previous pose is smoothed under the usual confidence condition,
  a keypoint beyond the previous pose is passed through unchanged. The frame as a whole ends
  in an error exactly when the current pose lacks a keypoint that is read: the first keypoint
  of an adjacent pair, the second keypoint of a pair whose first has a confidence above 0.3,
  or one of the wrists at indices 9 and 10. The previous pose plays no part in that.
\<close>

theorem cardinality_mismatch_not_rejected:
  "length (keypoints (smoothPoseMovement a current (Some previous))) =
     length (keypoints current) \<and>
   (\<forall>i < length (keypoints current).
      keypoints (smoothPoseMovement a current (Some previous)) ! i =
        (if i < length (keypoints previous) \<and> kp_score (keypoints current ! i) > 0.3
            \<and> kp_score (keypoints previous ! i) > 0.3
         then (keypoints current ! i)
           \<lparr>kp_x := kp_x (keypoints previous ! i) * a + kp_x (keypoints current ! i) * (1 - a),
            kp_y := kp_y (keypoints previous ! i) * a + kp_y (keypoints current ! i) * (1 - a)\<rparr>
         else keypoints current ! i)) \<and>
   (isl (detect ap st (current # rest) r) \<longleftrightarrow>
      \<not> (list_all (pair_readable (keypoints current)) ap \<and> 10 < length (keypoints current)))"
  by (simp add: smoothPoseMovement_length smoothPoseMovement_nth_blend detect_isl)

text \<open>
  After a frame of 17 keypoints: a frame of 18 confident keypoints passes index 17 through,
  blends index 16 and raises no error; a frame of 16 keypoints of confidence 0.2 raises no
  error either, since no second keypoint of a pair is read; a frame of 16 keypoints of
  confidence 0.9 ends in an error, the pair (14, 16) reading the missing keypoint 16.
\<close>

theorem cardinality_mismatch_not_rejected_witness:
  "keypoints (smoothPoseMovement 0.7 (flat_pose 18 10 10 0.9) (Some (flat_pose 17 0 0 0.9))) ! 17 =
     \<lparr>kp_x = 10, kp_y = 10, kp_score = 0.9, kp_name = ''kp''\<rparr> \<and>
   keypoints (smoothPoseMovement 0.7 (flat_pose 18 10 10 0.9) (Some (flat_pose 17 0 0 0.9))) ! 16 =
     \<lparr>kp_x = 3, kp_y = 3, kp_score = 0.9, kp_name = ''kp''\<rparr> \<and>
   \<not> isl (detect movenet_pairs (initial_state\<lparr>previousPoseRef := Some (flat_pose 17 0 0 0.9)\<rparr>)
      [flat_pose 18 10 10 0.9] 0.5) \<and>
   \<not> isl (detect movenet_pairs (initial_state\<lparr>previousPoseRef := Some (flat_pose 17 0 0 0.9)\<rparr>)
      [flat_pose 16 10 10 0.2] 0.5) \<and>
   isl (detect movenet_pairs (initial_state\<lparr>previousPoseRef := Some (flat_pose 17 0 0 0.9)\<rparr>)
      [flat_pose 16 10 10 0.9] 0.5)"
proof -
  let ?st = "initial_state\<lparr>previousPoseRef := Some (flat_pose 17 0 0 0.9)\<rparr>"
  note w = cardinality_mismatch_not_rejected [of "0.7" "flat_pose 18 10 10 0.9"
      "flat_pose 17 0 0 0.9" movenet_pairs ?st "[]" "0.5"]
  note w2 = cardinality_mismatch_not_rejected [of "0.7" "flat_pose 16 10 10 0.2"
      "flat_pose 17 0 0 0.9" movenet_pairs ?st "[]" "0.5"]
  note w3 = cardinality_mismatch_not_rejected [of "0.7" "flat_pose 16 10 10 0.9"
      "flat_pose 17 0 0 0.9" movenet_pairs ?st "[]" "0.5"]
  have i: "17 < length (keypoints (flat_pose 18 10 10 0.9))"
      "16 < length (keypoints (flat_pose 18 10 10 0.9))"
    by (simp_all add: flat_pose_def)
  have a: "keypoints (smoothPoseMovement 0.7 (flat_pose 18 10 10 0.9)
        (Some (flat_pose 17 0 0 0.9))) ! 17 =
      \<lparr>kp_x = 10, kp_y = 10, kp_score = 0.9, kp_name = ''kp''\<rparr>"
    using w [THEN conjunct2, THEN conjunct1, rule_format, OF i(1)]
    by (simp add: flat_pose_def)
  have b: "keypoints (smoothPoseMovement 0.7 (flat_pose 18 10 10 0.9)
        (Some (flat_pose 17 0 0 0.9))) ! 16 =
      \<lparr>kp_x = 3, kp_y = 3, kp_score = 0.9, kp_name = ''kp''\<rparr>"
    using w [THEN conjunct2, THEN conjunct1, rule_format, OF i(2)]
    by (simp add: flat_pose_def)
  have c: "\<not> isl (detect movenet_pairs ?st [flat_pose 18 10 10 0.9] 0.5)"
    using w [THEN conjunct2, THEN conjunct2]
    by (simp add: flat_pose_def movenet_pairs_def pair_readable_def)
  have d: "\<not> isl (detect movenet_pairs ?st [flat_pose 16 10 10 0.2] 0.5)"
    using w2 [THEN conjunct2, THEN conjunct2]
    by (simp add: flat_pose_def movenet_pairs_def pair_readable_def)
  have e: "isl (detect movenet_pairs ?st [flat_pose 16 10 10 0.9] 0.5)"
    using w3 [THEN conjunct2, THEN conjunct2]
    by (simp add: flat_pose_def movenet_pairs_def pair_readable_def)
  from a b c d e show ?thesis by (intro conjI)
qed

subsection \<open>Posture score\<close>

text \<open>
  Claim C6. A pose is scored when \<^verbatim>\<open>detect\<close> reaches \<^verbatim>\<open>onPostureUpdate\<close>, that is, after
  \<^verbatim>\<open>drawPose\<close> has read the first keypoint of every adjacent pair; with a table that has at
  least one pair, as MoveNet's has, such a pose has a keypoint. For every pose that is scored
  and whose confidences lie in the unit interval, the score reported is the mean of the
  confidences times 100, rounded to the nearest integer; it lies between 0 and 100; and it
  is 0, a number, when every confidence is 0. Numbers are real here, so the rounding is that
  of exact arithmetic: where the mean times 100 lies within the rounding error of a half,
  the doubles of the code can give the neighbouring integer.
\<close>

theorem posture_score_of_scored_pose:
  assumes "ap \<noteq> []"
    and "onPostureUpdate (outputs (detect ap st (p # rest) r)) \<noteq> None"
    and "confidences_in_unit p"
  shows "onPostureUpdate (outputs (detect ap st (p # rest) r)) =
           Some (Num (of_int (round (mean_confidence p * 100)))) \<and>
         0 \<le> round (mean_confidence p * 100) \<and> round (mean_confidence p * 100) \<le> 100 \<and>
         (zero_confidence p \<longrightarrow>
            onPostureUpdate (outputs (detect ap st (p # rest) r)) = Some (Num 0))"
proof -
  from assms(2) obtain s where s: "onPostureUpdate (outputs (detect ap st (p # rest) r)) = Some s"
    by blast
  then have d: "drawPose ap p = Inr ()" and sc: "s = postureScore p"
    by (simp_all add: detect_scored)
  from drawn_pose_nonempty [OF assms(1) d] have ne: "keypoints p \<noteq> []" .
  from postureScore_nonempty [OF ne] s sc
  have eq: "onPostureUpdate (outputs (detect ap st (p # rest) r)) =
      Some (Num (of_int (round (mean_confidence p * 100))))" by simp
  from mean_bounds [OF ne assms(3)]
  have m: "0 \<le> mean_confidence p" "mean_confidence p \<le> 1" .
  from eq round_percent_bounds [OF m] show ?thesis
    by (simp add: zero_mean)
qed

text \<open>
  With MoveNet's table from the initial state: seventeen keypoints of confidence 0.9 are
  scored 90, seventeen of confidence 0 are scored 0.
\<close>

theorem posture_score_of_scored_pose_witness:
  "onPostureUpdate (outputs (detect movenet_pairs initial_state [flat_pose 17 0 0 0.9] 0.5)) =
     Some (Num 90) \<and>
   onPostureUpdate (outputs (detect movenet_pairs initial_state [flat_pose 17 0 0 0] 0.5)) =
     Some (Num 0)"
proof -
  have ne: "movenet_pairs \<noteq> []"
    by (simp add: movenet_pairs_def)
  have a: "onPostureUpdate (outputs (detect movenet_pairs initial_state
        [flat_pose 17 0 0 0.9] 0.5)) \<noteq> None"
    by (simp add: detect_scored drawPose_def pair_readable_def movenet_pairs_def flat_pose_def)
  have b: "onPostureUpdate (outputs (detect movenet_pairs initial_state
        [flat_pose 17 0 0 0] 0.5)) \<noteq> None"
    by (simp add: detect_scored drawPose_def pair_readable_def movenet_pairs_def flat_pose_def)
  have ca: "confidences_in_unit (flat_pose 17 0 0 0.9)"
    and cb: "confidences_in_unit (flat_pose 17 0 0 0)"
    by (simp_all add: flat_pose_def confidences_in_unit_def list_all_length)
  have z: "zero_confidence (flat_pose 17 0 0 0)"
    by (simp add: flat_pose_def zero_confidence_def list_all_length)
  have m: "mean_confidence (flat_pose 17 0 0 0.9) * 100 = 90"
    by (simp add: mean_confidence_def flat_pose_def sum_list_replicate)
  have r: "round (mean_confidence (flat_pose 17 0 0 0.9) * 100) = 90"
    unfolding m by simp
  from posture_score_of_scored_pose [OF ne a ca, THEN conjunct1] r
    posture_score_of_scored_pose [OF ne b cb, THEN conjunct2, THEN conjunct2, THEN conjunct2,
      THEN mp, OF z]
  show ?thesis by simp
qed

text \<open>
  Claim C7. For every pose and every index of one of its keypoints, raising the confidence of
  that keypoint and keeping everything else gives a score that is a number and is not below
  the score before.
\<close>

theorem posture_score_monotone:
  assumes "i < length (keypoints p)" and "kp_score (keypoints p ! i) \<le> c"
  shows "js_le (postureScore p) (postureScore (with_confidence p i c))"
proof -
  let ?q = "with_confidence p i c"
  from assms(1) have ne: "keypoints p \<noteq> []" "keypoints ?q \<noteq> []"
    by (auto simp: with_confidence_def)
  have len: "length (keypoints ?q) = length (keypoints p)"
    by (simp add: with_confidence_def)
  have "sum_list (map kp_score (keypoints p)) \<le> sum_list (map kp_score (keypoints ?q))"
    unfolding with_confidence_def using assms
    by (simp add: sum_list_update_mono)
  then have "mean_confidence p \<le> mean_confidence ?q"
    unfolding mean_confidence_def len by (rule divide_right_mono) simp
  then have "round (mean_confidence p * 100) \<le> round (mean_confidence ?q * 100)"
    by (intro round_mono) simp
  then show ?thesis
    by (simp add: postureScore_nonempty ne)
qed

text \<open>Raising the confidence of keypoint 3 from 0.5 to 0.9 among seventeen keypoints.\<close>

theorem posture_score_monotone_witness:
  "js_le (postureScore (flat_pose 17 0 0 0.5))
     (postureScore (with_confidence (flat_pose 17 0 0 0.5) 3 0.9))"
proof -
  have h: "3 < length (keypoints (flat_pose 17 0 0 0.5))"
      "kp_score (keypoints (flat_pose 17 0 0 0.5) ! 3) \<le> 0.9"
    by (simp_all add: flat_pose_def)
  from posture_score_monotone [OF h] show ?thesis .
qed

text \<open>
  Claim C10. The score divides the sum of the confidences by the number of keypoints. It is
  \<^verbatim>\<open>NaN\<close> exactly when the pose has no keypoint; with at least one keypoint the average is
  that quotient, and with confidences in the unit interval as well the score is an integer
  between 0 and 100.
\<close>

theorem posture_score_needs_a_keypoint:
  "(postureScore p = NaN \<longleftrightarrow> keypoints p = []) \<and>
   (keypoints p \<noteq> [] \<longrightarrow>
      averageConfidence p =
        Num (sum_list (map kp_score (keypoints p)) / real (length (keypoints p)))) \<and>
   (keypoints p \<noteq> [] \<and> confidences_in_unit p \<longrightarrow>
      (\<exists>n. postureScore p = Num (of_int n) \<and> 0 \<le> n \<and> n \<le> 100))"
proof (intro conjI impI)
  show "postureScore p = NaN \<longleftrightarrow> keypoints p = []"
    by (cases "keypoints p = []") (simp_all add: postureScore_empty postureScore_nonempty)
next
  assume "keypoints p \<noteq> []"
  then show "averageConfidence p =
        Num (sum_list (map kp_score (keypoints p)) / real (length (keypoints p)))"
    by (simp add: averageConfidence_def foldl_sum Let_def)
next
  assume a: "keypoints p \<noteq> [] \<and> confidences_in_unit p"
  then have m: "0 \<le> mean_confidence p" "mean_confidence p \<le> 1"
    by (simp_all add: mean_bounds)
  from a round_percent_bounds [OF m] show "\<exists>n. postureScore p = Num (of_int n) \<and> 0 \<le> n \<and> n \<le> 100"
    by (auto simp: postureScore_nonempty)
qed

text \<open>The pose without keypoints, and seventeen keypoints of confidence 0.9.\<close>

theorem posture_score_needs_a_keypoint_witness:
  "postureScore empty_pose = NaN \<and>
   (\<exists>n. postureScore (flat_pose 17 0 0 0.9) = Num (of_int n) \<and> 0 \<le> n \<and> n \<le> 100)"
proof -
  have e: "keypoints empty_pose = []"
    by (simp add: empty_pose_def)
  have a: "keypoints (flat_pose 17 0 0 0.9) \<noteq> [] \<and> confidences_in_unit (flat_pose 17 0 0 0.9)"
    by (simp add: flat_pose_def confidences_in_unit_def list_all_length)
  from posture_score_needs_a_keypoint [of empty_pose, THEN conjunct1, THEN iffD2, OF e]
    posture_score_needs_a_keypoint [of "flat_pose 17 0 0 0.9", THEN conjunct2, THEN conjunct2,
      THEN mp, OF a]
  show ?thesis by (rule conjI)
qed

subsection \<open>Session aggregation\<close>

text \<open>
  Claim C9. Finalizing an aggregator that has processed no frame gives, at any timestamp and
  for any way of computing accuracy, the record with duration 0, no reps, and accuracy and
  posture score absent. Absent is not 0: after a single frame with posture score 0 the
  record reports the posture score 0.
\<close>

theorem finalize_without_frames:
  "fst (finalize accuracy_of (start_session exercise_type note) timestamp) =
     \<lparr>m_exerciseType = exercise_type, m_duration = 0, m_reps = 0, m_accuracy = None,
      m_postureScore = None, m_notes = note\<rparr> \<and>
   (case onFrame (start_session exercise_type note) p 0 False t of
      Inl e \<Rightarrow> False
    | Inr agg \<Rightarrow> m_postureScore (fst (finalize accuracy_of agg timestamp)) = Some 0)"
  by (simp add: finalize_def start_session_def onFrame_def)

end
